theory Spec2Isabelle
  imports Complex_Main "HOL-Library.Char_ord" "HOL-Library.List_Lexorder" "HOL-Library.Multiset"
begin

section \<open>The record store of server.ts\<close>

text \<open>
  The backend of the fitness tracker is five Express routes over one SQLite file
  (server.ts, lines 8 to 91). The embedding below models the database file as a record
  of its three tables, every SQL statement of the source as a function on that record,
  and every route handler as a function from the store (and the request body) to the
  new store and the outcome: an error thrown by the SQLite driver, or the response.
  The React front ends that follow the server in the source are clients of these routes
  (one of them keeps its own data in the browser instead); they are not modelled.

  Conventions of the model.
  \<^item> A table that has not been created is \<open>None\<close>; a created table is the list of its
    rows in rowid order, which is the order of a table scan.
  \<^item> A column that may hold NULL is an \<open>option\<close>; a request field that is absent
    (\<open>undefined\<close>) or \<open>null\<close> is \<open>None\<close> as well, since the driver binds both as NULL.
  \<^item> Request fields carry the values their TypeScript interfaces (src/types.ts)
    declare: strings as byte strings, the numbers of INTEGER columns as integers,
    the numbers of REAL columns as reals. Rowids are unbounded integers.
  \<^item> SQLite keeps an integer as INTEGER, and adds it up exactly, only within the
    signed 64-bit range; a number outside that range is kept as REAL, as a fraction
    is, and added up in floating point. The sums of GET /api/stats are therefore
    stated for stores whose calories are all within that range.
  \<^item> Texts are compared as SQLite's BINARY collation does, byte by byte, a proper
    prefix first: the lexicographic order on \<open>char list\<close>.
\<close>

subsection \<open>Rows, following the schema (server.ts, lines 12 to 36)\<close>

record workout =
  w_id :: int
  w_name :: string
  w_date :: string
  w_duration :: "int option"
  w_calories :: "int option"

record exercise =
  e_id :: int
  e_workout_id :: "int option"
  e_name :: string
  e_sets :: "int option"
  e_reps :: "int option"
  e_weight :: "real option"

record profile =
  p_id :: int
  p_name :: "string option"
  p_weight :: "real option"
  p_height :: "real option"
  p_goal :: "string option"

text \<open>
  The database file. \<open>workouts_seq\<close> and \<open>exercises_seq\<close> are the entries of
  \<open>sqlite_sequence\<close> that AUTOINCREMENT keeps for the two tables: the largest rowid
  ever handed out, 0 before the first insert.
\<close>

record db =
  workouts :: "workout list option"
  workouts_seq :: int
  exercises :: "exercise list option"
  exercises_seq :: int
  user_profile :: "profile list option"

definition fresh_db :: db where
  "fresh_db = \<lparr>workouts = None, workouts_seq = 0, exercises = None, exercises_seq = 0,
     user_profile = None\<rparr>"

datatype sqlite_error = NoSuchTable string | NotNullFailed string | IntegerOverflow

subsection \<open>Request bodies (src/types.ts) and response values\<close>

record exercise_body =
  x_name :: "string option"
  x_sets :: "int option"
  x_reps :: "int option"
  x_weight :: "real option"

text \<open>
  The \<open>exercises\<close> field of a POST /api/workouts body: absent, some value that is not
  an array, or an array of exercise objects.
\<close>

datatype exercises_field = ExAbsent | ExNotArray | ExArray "exercise_body list"

record workout_body =
  b_name :: "string option"
  b_date :: "string option"
  b_duration :: "int option"
  b_calories :: "int option"
  b_exercises :: exercises_field

record profile_body =
  pb_name :: "string option"
  pb_weight :: "real option"
  pb_height :: "real option"
  pb_goal :: "string option"

datatype json = JNull | JBool bool | JInt int | JReal real | JStr string

type_synonym json_object = "(string \<times> json) list"

definition json_of :: "('a \<Rightarrow> json) \<Rightarrow> 'a option \<Rightarrow> json" where
  "json_of f v = (case v of None \<Rightarrow> JNull | Some x \<Rightarrow> f x)"

subsection \<open>Initialisation: db.exec (server.ts, lines 11 to 39)\<close>

definition create_table_if_not_exists :: "'a list option \<Rightarrow> 'a list option" where
  "create_table_if_not_exists t = (case t of None \<Rightarrow> Some [] | Some rows \<Rightarrow> Some rows)"

definition default_profile :: profile where
  "default_profile = \<lparr>p_id = 1, p_name = Some ''Atleta'', p_weight = Some 75,
     p_height = Some 175, p_goal = Some ''Ganhar massa muscular''\<rparr>"

text \<open>
  INSERT OR IGNORE INTO user_profile: the row is skipped when it violates the CHECK
  (id = 1) or when its primary key is already taken.
\<close>

definition insert_or_ignore :: "profile list \<Rightarrow> profile \<Rightarrow> profile list" where
  "insert_or_ignore rows r =
     (if p_id r = 1 \<and> p_id r \<notin> set (map p_id rows) then rows @ [r] else rows)"

definition init_db :: "db \<Rightarrow> db" where
  "init_db s =
     (let s1 = s\<lparr>workouts := create_table_if_not_exists (workouts s)\<rparr>;
          s2 = s1\<lparr>exercises := create_table_if_not_exists (exercises s1)\<rparr>;
          s3 = s2\<lparr>user_profile := create_table_if_not_exists (user_profile s2)\<rparr>
      in s3\<lparr>user_profile :=
              map_option (\<lambda>rows. insert_or_ignore rows default_profile) (user_profile s3)\<rparr>)"

subsection \<open>GET and POST /api/profile (server.ts, lines 48 to 58)\<close>

definition profile_json :: "profile \<Rightarrow> json_object" where
  "profile_json r =
     [(''id'', JInt (p_id r)), (''name'', json_of JStr (p_name r)),
      (''weight'', json_of JReal (p_weight r)), (''height'', json_of JReal (p_height r)),
      (''goal'', json_of JStr (p_goal r))]"

text \<open>
  SELECT * FROM user_profile WHERE id = 1, read with \<open>.get()\<close>: the first matching row
  with all five columns, or \<open>undefined\<close> (\<open>None\<close>) when there is none.
\<close>

definition getProfile :: "db \<Rightarrow> sqlite_error + json_object option" where
  "getProfile s =
     (case user_profile s of
        None \<Rightarrow> Inl (NoSuchTable ''user_profile'')
      | Some rows \<Rightarrow>
          Inr (case filter (\<lambda>r. p_id r = 1) rows of
                 [] \<Rightarrow> None
               | r # _ \<Rightarrow> Some (profile_json r)))"

definition update_row :: "profile_body \<Rightarrow> profile \<Rightarrow> profile" where
  "update_row b r =
     (if p_id r = 1
      then r\<lparr>p_name := pb_name b, p_weight := pb_weight b, p_height := pb_height b,
             p_goal := pb_goal b\<rparr>
      else r)"

definition updateProfile :: "db \<Rightarrow> profile_body \<Rightarrow> db \<times> (sqlite_error + json_object)" where
  "updateProfile s b =
     (case user_profile s of
        None \<Rightarrow> (s, Inl (NoSuchTable ''user_profile''))
      | Some rows \<Rightarrow>
          (s\<lparr>user_profile := Some (map (update_row b) rows)\<rparr>,
           Inr [(''success'', JBool True)]))"

subsection \<open>GET /api/workouts (server.ts, lines 60 to 63)\<close>

text \<open>
  ORDER BY date DESC over a scan of the table in rowid order. SQLite's sorter compares
  the ORDER BY columns only and merges stably, so a row goes behind every row already
  placed whose date is not smaller: rows of one date keep the order of the scan.
\<close>

fun insert_desc :: "workout \<Rightarrow> workout list \<Rightarrow> workout list" where
  "insert_desc w [] = [w]"
| "insert_desc w (x # xs) =
     (if w_date w \<le> w_date x then x # insert_desc w xs else w # x # xs)"

definition order_by_date_desc :: "workout list \<Rightarrow> workout list" where
  "order_by_date_desc ws = foldl (\<lambda>acc w. insert_desc w acc) [] ws"

definition listWorkouts :: "db \<Rightarrow> sqlite_error + workout list" where
  "listWorkouts s =
     (case workouts s of
        None \<Rightarrow> Inl (NoSuchTable ''workouts'')
      | Some ws \<Rightarrow> Inr (order_by_date_desc ws))"

subsection \<open>POST /api/workouts (server.ts, lines 65 to 80)\<close>

text \<open>
  AUTOINCREMENT: the new rowid is one more than the largest rowid the table holds or
  has ever held.
\<close>

definition next_rowid :: "int list \<Rightarrow> int \<Rightarrow> int" where
  "next_rowid ids seq = fold max ids seq + 1"

text \<open>
  INSERT INTO workouts (name, date, duration, calories): the statement is prepared
  (which needs the table), then run; a NULL in a NOT NULL column aborts the statement
  and leaves the file as it was.
\<close>

definition insert_workout ::
  "db \<Rightarrow> string option \<Rightarrow> string option \<Rightarrow> int option \<Rightarrow> int option \<Rightarrow> db \<times> (sqlite_error + int)"
where
  "insert_workout s name date duration calories =
     (case workouts s of
        None \<Rightarrow> (s, Inl (NoSuchTable ''workouts''))
      | Some ws \<Rightarrow>
          (case name of
             None \<Rightarrow> (s, Inl (NotNullFailed ''workouts.name''))
           | Some n \<Rightarrow>
               (case date of
                  None \<Rightarrow> (s, Inl (NotNullFailed ''workouts.date''))
                | Some d \<Rightarrow>
                    (let i = next_rowid (map w_id ws) (workouts_seq s)
                     in (s\<lparr>workouts := Some (ws @ [\<lparr>w_id = i, w_name = n, w_date = d,
                                   w_duration = duration, w_calories = calories\<rparr>]),
                           workouts_seq := i\<rparr>,
                         Inr i)))))"

definition insert_exercise :: "db \<Rightarrow> int \<Rightarrow> exercise_body \<Rightarrow> db \<times> (sqlite_error + int)" where
  "insert_exercise s workoutId ex =
     (case exercises s of
        None \<Rightarrow> (s, Inl (NoSuchTable ''exercises''))
      | Some es \<Rightarrow>
          (case x_name ex of
             None \<Rightarrow> (s, Inl (NotNullFailed ''exercises.name''))
           | Some n \<Rightarrow>
               (let i = next_rowid (map e_id es) (exercises_seq s)
                in (s\<lparr>exercises := Some (es @ [\<lparr>e_id = i, e_workout_id = Some workoutId,
                              e_name = n, e_sets = x_sets ex, e_reps = x_reps ex,
                              e_weight = x_weight ex\<rparr>]),
                      exercises_seq := i\<rparr>,
                    Inr i))))"

text \<open>The loop \<open>for (const ex of exercises)\<close>: it stops at the first insert that throws.\<close>

fun insert_exercises :: "db \<Rightarrow> int \<Rightarrow> exercise_body list \<Rightarrow> db \<times> (sqlite_error + unit)" where
  "insert_exercises s workoutId [] = (s, Inr ())"
| "insert_exercises s workoutId (ex # exs) =
     (case insert_exercise s workoutId ex of
        (s', Inl e) \<Rightarrow> (s', Inl e)
      | (s', Inr _) \<Rightarrow> insert_exercises s' workoutId exs)"

text \<open>
  The handler. No transaction is opened: every statement commits on its own, and an
  error leaves the handler with the store as the statements before it made it.
\<close>

definition createWorkout :: "db \<Rightarrow> workout_body \<Rightarrow> db \<times> (sqlite_error + int)" where
  "createWorkout s b =
     (case insert_workout s (b_name b) (b_date b) (b_duration b) (b_calories b) of
        (s1, Inl e) \<Rightarrow> (s1, Inl e)
      | (s1, Inr workoutId) \<Rightarrow>
          (case b_exercises b of
             ExArray exs \<Rightarrow>
               (case exercises s1 of
                  None \<Rightarrow> (s1, Inl (NoSuchTable ''exercises''))
                | Some _ \<Rightarrow>
                    (case insert_exercises s1 workoutId exs of
                       (s2, Inl e) \<Rightarrow> (s2, Inl e)
                     | (s2, Inr _) \<Rightarrow> (s2, Inr workoutId)))
           | _ \<Rightarrow> (s1, Inr workoutId)))"

subsection \<open>GET /api/stats (server.ts, lines 82 to 91)\<close>












subsection \<open>The states the server can be in\<close>

text \<open>
  The module runs \<open>db.exec\<close> before it starts the server, on a new file or on the file a
  previous run left; after that only the two POST handlers write.
\<close>

inductive reachable :: "db \<Rightarrow> bool" where
  first_start: "reachable (init_db fresh_db)"
| restart: "reachable s \<Longrightarrow> reachable (init_db s)"
| profile_posted: "reachable s \<Longrightarrow> reachable (fst (updateProfile s b))"
| workout_posted: "reachable s \<Longrightarrow> reachable (fst (createWorkout s b))"


text \<open>
  What holds of the store in every such state: the three tables exist, the profile table
  holds one row with id 1, the workout rows carry increasing rowids none of which
  exceeds the sequence counter, and every exercise row references a workout row.
\<close>

definition store_inv :: "db \<Rightarrow> bool" where
  "store_inv s \<longleftrightarrow>
     (\<exists>ws es r. workouts s = Some ws \<and> exercises s = Some es \<and> user_profile s = Some [r] \<and>
        p_id r = 1 \<and> sorted_wrt (<) (map w_id ws) \<and> (\<forall>w\<in>set ws. w_id w \<le> workouts_seq s) \<and>
        (\<forall>e\<in>set es. \<exists>w\<in>set ws. e_workout_id e = Some (w_id w)))"

subsection \<open>Vocabulary of the properties\<close>

text \<open>The exercises the loop of the handler runs over: none unless the field is an array.\<close>

fun supplied_exercises :: "exercises_field \<Rightarrow> exercise_body list" where
  "supplied_exercises (ExArray exs) = exs"
| "supplied_exercises ExAbsent = []"
| "supplied_exercises ExNotArray = []"

definition named :: "exercise_body \<Rightarrow> bool" where
  "named ex \<longleftrightarrow> x_name ex \<noteq> None"

text \<open>
  A valid body of POST /api/workouts, as the interfaces \<open>Workout\<close> and \<open>Exercise\<close> of
  src/types.ts type it: name and date are strings, and so is the name of every exercise.
\<close>

definition valid_body :: "workout_body \<Rightarrow> bool" where
  "valid_body b \<longleftrightarrow>
     b_name b \<noteq> None \<and> b_date b \<noteq> None \<and> list_all named (supplied_exercises (b_exercises b))"

text \<open>An exercise row holds a submitted exercise for a given workout.\<close>

definition stores_exercise :: "int \<Rightarrow> exercise \<Rightarrow> exercise_body \<Rightarrow> bool" where
  "stores_exercise workoutId e ex \<longleftrightarrow>
     e_workout_id e = Some workoutId \<and> Some (e_name e) = x_name ex \<and> e_sets e = x_sets ex \<and>
     e_reps e = x_reps ex \<and> e_weight e = x_weight ex"

text \<open>
  Two orders on workout rows, both by date descending: the first leaves rows of one date
  in rowid order, the second (the one the specification words) reverses them.
\<close>

definition stable_date_desc :: "workout \<Rightarrow> workout \<Rightarrow> bool" where
  "stable_date_desc a b \<longleftrightarrow> w_date b < w_date a \<or> (w_date a = w_date b \<and> w_id a < w_id b)"

definition date_desc_id_desc :: "workout \<Rightarrow> workout \<Rightarrow> bool" where
  "date_desc_id_desc a b \<longleftrightarrow> w_date b < w_date a \<or> (w_date a = w_date b \<and> w_id b < w_id a)"




text \<open>A calorie total read as a number: NULL counts as 0.\<close>

definition null_as_zero :: "int option \<Rightarrow> int" where
  "null_as_zero c = (case c of None \<Rightarrow> 0 | Some n \<Rightarrow> n)"

subsection \<open>Concrete requests and stores\<close>

definition squat :: exercise_body where
  "squat = \<lparr>x_name = Some ''Squat'', x_sets = Some 4, x_reps = Some 8, x_weight = Some 80\<rparr>"

definition lunge :: exercise_body where
  "lunge = \<lparr>x_name = Some ''Lunge'', x_sets = Some 3, x_reps = Some 12, x_weight = None\<rparr>"

definition nameless :: exercise_body where
  "nameless = \<lparr>x_name = None, x_sets = Some 3, x_reps = Some 10, x_weight = Some 20\<rparr>"

definition leg_day :: "exercises_field \<Rightarrow> workout_body" where
  "leg_day exs = \<lparr>b_name = Some ''Leg Day'', b_date = Some ''2024-06-01'', b_duration = Some 45,
     b_calories = Some 300, b_exercises = exs\<rparr>"

definition run_on :: "string \<Rightarrow> workout_body" where
  "run_on d = \<lparr>b_name = Some ''Run'', b_date = Some d, b_duration = Some 30,
     b_calories = Some 200, b_exercises = ExAbsent\<rparr>"

definition ana :: profile_body where
  "ana = \<lparr>pb_name = Some ''Ana'', pb_weight = Some (- 60), pb_height = Some 165,
     pb_goal = Some ''Perder peso''\<rparr>"

definition started :: db where
  "started = init_db fresh_db"

definition one_leg_day :: db where
  "one_leg_day = fst (createWorkout started (leg_day (ExArray [squat])))"

definition two_runs :: db where
  "two_runs = fst (createWorkout (fst (createWorkout started (run_on ''2024-06-01'')))
     (run_on ''2024-06-01''))"

definition three_runs :: db where
  "three_runs = fst (createWorkout (fst (createWorkout (fst (createWorkout started
     (run_on ''2024-01-01''))) (run_on ''2024-01-03''))) (run_on ''2024-01-02''))"







section \<open>Lemmas about the operations\<close>

subsection \<open>Initialisation\<close>


lemma create_table_Some [simp]:
  "create_table_if_not_exists (Some rows) = Some rows"
  by (simp add: create_table_if_not_exists_def)

lemma create_table_None [simp]:
  "create_table_if_not_exists None = Some []"
  by (simp add: create_table_if_not_exists_def)

lemma init_db_workouts:
  "workouts (init_db s) = create_table_if_not_exists (workouts s)"
  "workouts_seq (init_db s) = workouts_seq s"
  "exercises (init_db s) = create_table_if_not_exists (exercises s)"
  "exercises_seq (init_db s) = exercises_seq s"
  by (simp_all add: init_db_def Let_def)

lemma init_db_user_profile:
  "user_profile (init_db s) =
     Some (insert_or_ignore (case user_profile s of None \<Rightarrow> [] | Some rows \<Rightarrow> rows) default_profile)"
  by (cases "user_profile s") (simp_all add: init_db_def Let_def)

lemma insert_or_ignore_present:
  "1 \<in> p_id ` set rows \<Longrightarrow> insert_or_ignore rows default_profile = rows"
  by (simp add: insert_or_ignore_def default_profile_def)

lemma insert_or_ignore_absent:
  "1 \<notin> p_id ` set rows \<Longrightarrow> insert_or_ignore rows default_profile = rows @ [default_profile]"
  by (simp add: insert_or_ignore_def default_profile_def)

lemma default_profile_id [simp]: "p_id default_profile = 1"
  by (simp add: default_profile_def)



lemma init_db_keeps_profile:
  "user_profile s = Some rows \<Longrightarrow> 1 \<in> p_id ` set rows \<Longrightarrow> user_profile (init_db s) = Some rows"
  by (simp add: init_db_user_profile insert_or_ignore_present)

lemma init_fresh_profile: "user_profile (init_db fresh_db) = Some [default_profile]"
  by (simp add: init_db_user_profile fresh_db_def insert_or_ignore_absent)




subsection \<open>Rowids\<close>

lemma fold_max_ge_seq: "seq \<le> fold max ids (seq::int)"
  by (induction ids arbitrary: seq) (auto intro: order_trans [OF max.cobounded2])

lemma fold_max_ge_ids: "i \<in> set ids \<Longrightarrow> i \<le> fold max ids (seq::int)"
proof (induction ids arbitrary: seq)
  case Nil
  then show ?case by simp
next
  case (Cons a ids)
  show ?case
  proof (cases "i = a")
    case True
    have "a \<le> max a seq" by simp
    also have "\<dots> \<le> fold max ids (max a seq)" by (rule fold_max_ge_seq)
    finally show ?thesis using True by simp
  next
    case False
    with Cons show ?thesis by simp
  qed
qed

lemma next_rowid_gt_seq: "seq < next_rowid ids seq"
  using fold_max_ge_seq [of seq ids] by (simp add: next_rowid_def)

lemma next_rowid_gt_ids: "i \<in> set ids \<Longrightarrow> i < next_rowid ids seq"
  using fold_max_ge_ids [of i ids seq] by (simp add: next_rowid_def)

subsection \<open>The inserts\<close>

lemma insert_workout_ok:
  "workouts s = Some ws \<Longrightarrow>
   insert_workout s (Some n) (Some d) du ca =
     (s\<lparr>workouts := Some (ws @ [\<lparr>w_id = next_rowid (map w_id ws) (workouts_seq s), w_name = n,
            w_date = d, w_duration = du, w_calories = ca\<rparr>]),
        workouts_seq := next_rowid (map w_id ws) (workouts_seq s)\<rparr>,
      Inr (next_rowid (map w_id ws) (workouts_seq s)))"
  by (simp add: insert_workout_def Let_def)

lemma insert_workout_no_name:
  "workouts s = Some ws \<Longrightarrow>
   insert_workout s None d du ca = (s, Inl (NotNullFailed ''workouts.name''))"
  by (simp add: insert_workout_def)

lemma insert_workout_no_date:
  "workouts s = Some ws \<Longrightarrow>
   insert_workout s (Some n) None du ca = (s, Inl (NotNullFailed ''workouts.date''))"
  by (simp add: insert_workout_def)

lemma insert_workout_no_table:
  "workouts s = None \<Longrightarrow> insert_workout s n d du ca = (s, Inl (NoSuchTable ''workouts''))"
  by (simp add: insert_workout_def)

lemma insert_workout_error:
  "insert_workout s n d du ca = (s', Inl e) \<Longrightarrow> s' = s"
  by (auto simp add: insert_workout_def Let_def split: option.splits)

lemma insert_workout_frame:
  "insert_workout s n d du ca = (s', r) \<Longrightarrow>
   exercises s' = exercises s \<and> exercises_seq s' = exercises_seq s \<and>
   user_profile s' = user_profile s"
  by (auto simp add: insert_workout_def Let_def split: option.splits)

lemma insert_exercise_named:
  "exercises s = Some es \<Longrightarrow> x_name ex = Some n \<Longrightarrow>
   insert_exercise s i ex =
     (s\<lparr>exercises := Some (es @ [\<lparr>e_id = next_rowid (map e_id es) (exercises_seq s),
            e_workout_id = Some i, e_name = n, e_sets = x_sets ex, e_reps = x_reps ex,
            e_weight = x_weight ex\<rparr>]),
        exercises_seq := next_rowid (map e_id es) (exercises_seq s)\<rparr>,
      Inr (next_rowid (map e_id es) (exercises_seq s)))"
  by (simp add: insert_exercise_def Let_def)

lemma insert_exercise_unnamed:
  "exercises s = Some es \<Longrightarrow> x_name ex = None \<Longrightarrow>
   insert_exercise s i ex = (s, Inl (NotNullFailed ''exercises.name''))"
  by (simp add: insert_exercise_def)

text \<open>
  What the loop leaves behind: the rows of the longest prefix of named exercises, in
  order, and an error exactly when some exercise has no name.
\<close>

lemma insert_exercises_effect:
  "exercises s = Some es \<Longrightarrow>
   \<exists>s' new. insert_exercises s i exs =
       (s', if list_all named exs then Inr () else Inl (NotNullFailed ''exercises.name'')) \<and>
     exercises s' = Some (es @ new) \<and> list_all2 (stores_exercise i) new (takeWhile named exs) \<and>
     workouts s' = workouts s \<and> workouts_seq s' = workouts_seq s \<and>
     user_profile s' = user_profile s"
proof (induction exs arbitrary: s es)
  case Nil
  then show ?case by simp
next
  case (Cons ex exs)
  show ?case
  proof (cases "x_name ex")
    case None
    with Cons.prems show ?thesis
      by (simp add: insert_exercise_unnamed named_def)
  next
    case (Some n)
    let ?row = "\<lparr>e_id = next_rowid (map e_id es) (exercises_seq s),
            e_workout_id = Some i, e_name = n, e_sets = x_sets ex, e_reps = x_reps ex,
            e_weight = x_weight ex\<rparr>"
    let ?s1 = "s\<lparr>exercises := Some (es @ [?row]),
        exercises_seq := next_rowid (map e_id es) (exercises_seq s)\<rparr>"
    have step: "insert_exercises s i (ex # exs) = insert_exercises ?s1 i exs"
      using Cons.prems Some by (simp add: insert_exercise_named)
    have "exercises ?s1 = Some (es @ [?row])" by simp
    from Cons.IH [OF this] obtain s' new where
      run: "insert_exercises ?s1 i exs =
          (s', if list_all named exs then Inr () else Inl (NotNullFailed ''exercises.name''))"
      and rows: "exercises s' = Some ((es @ [?row]) @ new)"
      and all2: "list_all2 (stores_exercise i) new (takeWhile named exs)"
      and frame: "workouts s' = workouts ?s1" "workouts_seq s' = workouts_seq ?s1"
        "user_profile s' = user_profile ?s1"
      by blast
    have here: "stores_exercise i ?row ex" "named ex"
      using Some by (simp_all add: stores_exercise_def named_def)
    have "list_all2 (stores_exercise i) (?row # new) (takeWhile named (ex # exs))"
      using here all2 by simp
    moreover have "exercises s' = Some (es @ ?row # new)"
      using rows by simp
    moreover have "insert_exercises s i (ex # exs) =
       (s', if list_all named (ex # exs) then Inr () else Inl (NotNullFailed ''exercises.name''))"
      using step run here by simp
    ultimately show ?thesis using frame by (intro exI [of _ s'] exI [of _ "?row # new"]) simp
  qed
qed

lemma createWorkout_no_name:
  "workouts s = Some ws \<Longrightarrow> b_name b = None \<Longrightarrow>
   createWorkout s b = (s, Inl (NotNullFailed ''workouts.name''))"
  by (simp add: createWorkout_def insert_workout_no_name)

lemma createWorkout_no_date:
  "workouts s = Some ws \<Longrightarrow> b_name b = Some n \<Longrightarrow> b_date b = None \<Longrightarrow>
   createWorkout s b = (s, Inl (NotNullFailed ''workouts.date''))"
  by (simp add: createWorkout_def insert_workout_no_date)

lemma createWorkout_effect:
  assumes ws: "workouts s = Some ws" and es: "exercises s = Some es"
    and n: "b_name b = Some n" and d: "b_date b = Some d"
  defines "i \<equiv> next_rowid (map w_id ws) (workouts_seq s)"
  shows "\<exists>s' new. createWorkout s b =
       (s', if list_all named (supplied_exercises (b_exercises b)) then Inr i
            else Inl (NotNullFailed ''exercises.name'')) \<and>
     workouts s' = Some (ws @ [\<lparr>w_id = i, w_name = n, w_date = d, w_duration = b_duration b,
        w_calories = b_calories b\<rparr>]) \<and>
     workouts_seq s' = i \<and> exercises s' = Some (es @ new) \<and>
     list_all2 (stores_exercise i) new (takeWhile named (supplied_exercises (b_exercises b))) \<and>
     user_profile s' = user_profile s"
proof -
  let ?row = "\<lparr>w_id = i, w_name = n, w_date = d, w_duration = b_duration b,
        w_calories = b_calories b\<rparr>"
  let ?s1 = "s\<lparr>workouts := Some (ws @ [?row]), workouts_seq := i\<rparr>"
  have ins: "insert_workout s (b_name b) (b_date b) (b_duration b) (b_calories b) = (?s1, Inr i)"
    using insert_workout_ok [OF ws, of n d "b_duration b" "b_calories b"] n d by (simp add: i_def)
  have es1: "exercises ?s1 = Some es" using es by simp
  show ?thesis
  proof (cases "b_exercises b")
    case (ExArray exs)
    from insert_exercises_effect [OF es1, of i exs] obtain s' new where
      run: "insert_exercises ?s1 i exs =
          (s', if list_all named exs then Inr () else Inl (NotNullFailed ''exercises.name''))"
      and rows: "exercises s' = Some (es @ new)"
      and all2: "list_all2 (stores_exercise i) new (takeWhile named exs)"
      and frame: "workouts s' = workouts ?s1" "workouts_seq s' = workouts_seq ?s1"
        "user_profile s' = user_profile ?s1"
      by blast
    have "createWorkout s b =
       (s', if list_all named exs then Inr i else Inl (NotNullFailed ''exercises.name''))"
      using ins ExArray es1 run by (simp add: createWorkout_def)
    then show ?thesis using ExArray rows all2 frame
      by (intro exI [of _ s'] exI [of _ new]) simp
  next
    case ExAbsent
    then have "createWorkout s b = (?s1, Inr i)"
      using ins by (simp add: createWorkout_def)
    then show ?thesis using ExAbsent es
      by (intro exI [of _ ?s1] exI [of _ "[]"]) simp
  next
    case ExNotArray
    then have "createWorkout s b = (?s1, Inr i)"
      using ins by (simp add: createWorkout_def)
    then show ?thesis using ExNotArray es
      by (intro exI [of _ ?s1] exI [of _ "[]"]) simp
  qed
qed

subsection \<open>The invariant of the store\<close>

lemma store_inv_init_fresh: "store_inv (init_db fresh_db)"
proof -
  have "workouts fresh_db = None" "exercises fresh_db = None"
    by (simp_all add: fresh_db_def)
  then show ?thesis
    by (simp add: store_inv_def init_db_workouts init_fresh_profile)
qed

lemma store_inv_init_id:
  assumes "store_inv s"
  shows "init_db s = s"
proof -
  from assms obtain ws es r where
    t: "workouts s = Some ws" "exercises s = Some es" "user_profile s = Some [r]" "p_id r = 1"
    by (auto simp add: store_inv_def)
  have "user_profile (init_db s) = user_profile s"
    using t by (simp add: init_db_keeps_profile)
  moreover have "workouts (init_db s) = workouts s" "exercises (init_db s) = exercises s"
    "workouts_seq (init_db s) = workouts_seq s" "exercises_seq (init_db s) = exercises_seq s"
    using t by (simp_all add: init_db_workouts)
  moreover have "db.more (init_db s) = db.more s"
    by (simp add: init_db_def Let_def)
  ultimately show ?thesis by (intro db.equality) simp_all
qed

lemma updateProfile_frame:
  "workouts (fst (updateProfile s b)) = workouts s \<and>
   workouts_seq (fst (updateProfile s b)) = workouts_seq s \<and>
   exercises (fst (updateProfile s b)) = exercises s \<and>
   exercises_seq (fst (updateProfile s b)) = exercises_seq s"
  by (simp add: updateProfile_def split: option.splits)

lemma updateProfile_single:
  "user_profile s = Some [r] \<Longrightarrow> p_id r = 1 \<Longrightarrow>
   updateProfile s b =
     (s\<lparr>user_profile := Some [\<lparr>p_id = 1, p_name = pb_name b, p_weight = pb_weight b,
         p_height = pb_height b, p_goal = pb_goal b\<rparr>]\<rparr>,
      Inr [(''success'', JBool True)])"
  by (cases r) (simp add: updateProfile_def update_row_def)

lemma store_inv_updateProfile:
  assumes "store_inv s"
  shows "store_inv (fst (updateProfile s b))"
proof -
  from assms obtain r where r: "user_profile s = Some [r]" "p_id r = 1"
    by (auto simp add: store_inv_def)
  show ?thesis
    using assms unfolding updateProfile_single [OF r]
    by (auto simp add: store_inv_def)
qed

lemma createWorkout_user_profile:
  "user_profile (fst (createWorkout s b)) = user_profile s"
proof (cases "workouts s")
  case None
  then show ?thesis by (simp add: createWorkout_def insert_workout_no_table)
next
  case ws: (Some ws)
  show ?thesis
  proof (cases "b_name b")
    case None
    with ws show ?thesis by (simp add: createWorkout_no_name)
  next
    case n: (Some n)
    show ?thesis
    proof (cases "b_date b")
      case None
      with ws n show ?thesis by (simp add: createWorkout_no_date)
    next
      case d: (Some d)
      show ?thesis
      proof (cases "exercises s")
        case None
        then show ?thesis
          using insert_workout_ok [OF ws, of n d "b_duration b" "b_calories b"] n d
          by (simp add: createWorkout_def split: exercises_field.splits)
      next
        case (Some es)
        from createWorkout_effect [OF ws Some n d] show ?thesis by auto
      qed
    qed
  qed
qed

lemma sorted_ids_snoc:
  "sorted_wrt (<) (map w_id ws) \<Longrightarrow> \<forall>w\<in>set ws. w_id w < i \<Longrightarrow> w_id row = i \<Longrightarrow>
   sorted_wrt (<) (map w_id (ws @ [row]))"
  by (simp add: sorted_wrt_append)

lemma store_inv_createWorkout:
  assumes "store_inv s"
  shows "store_inv (fst (createWorkout s b))"
proof -
  from assms obtain ws es r where
    t: "workouts s = Some ws" "exercises s = Some es" "user_profile s = Some [r]" "p_id r = 1"
    and sorted: "sorted_wrt (<) (map w_id ws)"
    and bound: "\<forall>w\<in>set ws. w_id w \<le> workouts_seq s"
    and fk: "\<forall>e\<in>set es. \<exists>w\<in>set ws. e_workout_id e = Some (w_id w)"
    by (auto simp add: store_inv_def)
  show ?thesis
  proof (cases "b_name b")
    case None
    with t assms show ?thesis by (simp add: createWorkout_no_name)
  next
    case n: (Some n)
    show ?thesis
    proof (cases "b_date b")
      case None
      with t n assms show ?thesis by (simp add: createWorkout_no_date)
    next
      case d: (Some d)
      define i where "i = next_rowid (map w_id ws) (workouts_seq s)"
      let ?row = "\<lparr>w_id = i, w_name = n, w_date = d, w_duration = b_duration b,
        w_calories = b_calories b\<rparr>"
      from createWorkout_effect [OF t(1) t(2) n d] obtain s' new where
        ws': "workouts s' = Some (ws @ [?row])" and seq': "workouts_seq s' = i"
        and es': "exercises s' = Some (es @ new)"
        and all2: "list_all2 (stores_exercise i) new
            (takeWhile named (supplied_exercises (b_exercises b)))"
        and p': "user_profile s' = user_profile s"
        and s': "fst (createWorkout s b) = s'"
        unfolding i_def by force
      have gt: "\<forall>w\<in>set ws. w_id w < i"
        using next_rowid_gt_ids [of _ "map w_id ws" "workouts_seq s"] by (simp add: i_def)
      have "sorted_wrt (<) (map w_id (ws @ [?row]))"
        using sorted gt by (intro sorted_ids_snoc [where i = i]) simp_all
      moreover have "\<forall>w\<in>set (ws @ [?row]). w_id w \<le> i"
        using gt by auto
      moreover have "\<forall>e\<in>set new. e_workout_id e = Some i"
        using all2 by (auto simp add: list_all2_conv_all_nth in_set_conv_nth stores_exercise_def)
      then have "\<forall>e\<in>set (es @ new). \<exists>w\<in>set (ws @ [?row]). e_workout_id e = Some (w_id w)"
        using fk by auto
      ultimately show ?thesis
        unfolding s' store_inv_def using ws' seq' es' p' t(3,4) by simp
    qed
  qed
qed

lemma reachable_inv: "reachable s \<Longrightarrow> store_inv s"
proof (induction rule: reachable.induct)
  case first_start
  show ?case by (rule store_inv_init_fresh)
next
  case (restart s)
  then show ?case by (simp add: store_inv_init_id)
next
  case (profile_posted s b)
  from profile_posted.IH show ?case by (rule store_inv_updateProfile)
next
  case (workout_posted s b)
  from workout_posted.IH show ?case by (rule store_inv_createWorkout)
qed

subsection \<open>The order of the workout list\<close>

lemma mset_insert_desc: "mset (insert_desc w xs) = add_mset w (mset xs)"
  by (induction xs) simp_all

lemma set_insert_desc: "set (insert_desc w xs) = insert w (set xs)"
  by (induction xs) auto

lemma order_by_date_desc_snoc:
  "order_by_date_desc (ws @ [w]) = insert_desc w (order_by_date_desc ws)"
  by (simp add: order_by_date_desc_def)

lemma order_by_date_desc_Nil: "order_by_date_desc [] = []"
  by (simp add: order_by_date_desc_def)

lemma mset_order_by_date_desc: "mset (order_by_date_desc ws) = mset ws"
  by (induction ws rule: rev_induct)
     (simp_all add: order_by_date_desc_Nil order_by_date_desc_snoc mset_insert_desc)

lemma set_order_by_date_desc: "set (order_by_date_desc ws) = set ws"
  using mset_order_by_date_desc [of ws] by (metis set_mset_mset)

lemma insert_desc_sorted:
  "sorted_wrt stable_date_desc xs \<Longrightarrow> \<forall>x\<in>set xs. w_id x < w_id w \<Longrightarrow>
   sorted_wrt stable_date_desc (insert_desc w xs)"
proof (induction xs)
  case Nil
  then show ?case by simp
next
  case (Cons x xs)
  show ?case
  proof (cases "w_date w \<le> w_date x")
    case True
    have "stable_date_desc x w"
      using True Cons.prems(2) by (auto simp add: stable_date_desc_def)
    moreover have "sorted_wrt stable_date_desc (insert_desc w xs)"
      using Cons by simp
    ultimately show ?thesis
      using True Cons.prems(1) by (simp add: set_insert_desc)
  next
    case False
    then have lt: "w_date x < w_date w" by simp
    have "stable_date_desc w y" if "y \<in> set xs" for y
    proof -
      from Cons.prems(1) that have "stable_date_desc x y" by simp
      then have "w_date y \<le> w_date x" by (auto simp add: stable_date_desc_def)
      then have "w_date y < w_date w" using lt by (rule le_less_trans)
      then show ?thesis by (simp add: stable_date_desc_def)
    qed
    moreover have "stable_date_desc w x" using lt by (simp add: stable_date_desc_def)
    ultimately show ?thesis using False Cons.prems(1) by simp
  qed
qed

lemma order_by_date_desc_sorted:
  "sorted_wrt (<) (map w_id ws) \<Longrightarrow> sorted_wrt stable_date_desc (order_by_date_desc ws)"
proof (induction ws rule: rev_induct)
  case Nil
  show ?case by (simp add: order_by_date_desc_Nil)
next
  case (snoc w ws)
  from snoc.prems have ids: "sorted_wrt (<) (map w_id ws)" and gt: "\<forall>x\<in>set ws. w_id x < w_id w"
    by (simp_all add: sorted_wrt_append)
  show ?case
    unfolding order_by_date_desc_snoc
    using snoc.IH [OF ids] gt by (intro insert_desc_sorted) (simp_all add: set_order_by_date_desc)
qed

lemma remove1_insert_desc: "w \<notin> set xs \<Longrightarrow> remove1 w (insert_desc w xs) = xs"
  by (induction xs) auto

lemma distinct_ids_after_insert:
  assumes "sorted_wrt (<) (map w_id ws)" and "\<forall>w\<in>set ws. w_id w < w_id row"
  shows "distinct (map w_id (insert_desc row (order_by_date_desc ws)))"
proof -
  have "mset (insert_desc row (order_by_date_desc ws)) = mset (ws @ [row])"
    by (simp add: mset_insert_desc mset_order_by_date_desc)
  then have "mset (map w_id (insert_desc row (order_by_date_desc ws))) =
      mset (map w_id (ws @ [row]))"
    by (metis mset_map)
  moreover have "distinct (map w_id (ws @ [row]))"
    using assms by (auto simp add: strict_sorted_iff)
  ultimately show ?thesis
    by (metis mset_eq_imp_distinct_iff)
qed

subsection \<open>The weekly statistics\<close>

















lemma null_as_zero_total:
  "null_as_zero (if xs = [] then None else Some (sum_list xs)) = sum_list xs"
  by (simp add: null_as_zero_def)







subsection \<open>Running the model on concrete input\<close>

lemma reachable_started: "reachable started"
  unfolding started_def by (rule reachable.first_start)

lemma reachable_one_leg_day: "reachable one_leg_day"
  unfolding one_leg_day_def by (rule reachable.workout_posted [OF reachable_started])

lemma reachable_two_runs: "reachable two_runs"
  unfolding two_runs_def
  by (rule reachable.workout_posted [OF reachable.workout_posted [OF reachable_started]])

lemma reachable_three_runs: "reachable three_runs"
  unfolding three_runs_def
  by (intro reachable.workout_posted reachable_started)

lemma started_value:
  "started = \<lparr>workouts = Some [], workouts_seq = 0, exercises = Some [], exercises_seq = 0,
     user_profile = Some [default_profile]\<rparr>"
  by (simp add: started_def init_db_def fresh_db_def insert_or_ignore_def default_profile_def
      Let_def)

lemma one_leg_day_value:
  "one_leg_day = \<lparr>workouts = Some [\<lparr>w_id = 1, w_name = ''Leg Day'', w_date = ''2024-06-01'',
        w_duration = Some 45, w_calories = Some 300\<rparr>],
     workouts_seq = 1,
     exercises = Some [\<lparr>e_id = 1, e_workout_id = Some 1, e_name = ''Squat'', e_sets = Some 4,
        e_reps = Some 8, e_weight = Some 80\<rparr>],
     exercises_seq = 1, user_profile = Some [default_profile]\<rparr>"
  by (simp add: one_leg_day_def started_value createWorkout_def insert_workout_def
      insert_exercise_def next_rowid_def leg_day_def squat_def Let_def)

















section \<open>The claims\<close>




text \<open>
  C2, as stated, fails: posting a Leg Day whose second exercise has no name to the newly
  initialised store ends in the NOT NULL error of \<open>exercises.name\<close>, and afterwards the
  store holds the workout row and the row of the first exercise; it is not the store
  from before.
\<close>

theorem createWorkout_atomic_counterexample:
  "createWorkout started (leg_day (ExArray [squat, nameless, lunge])) =
     (\<lparr>workouts = Some [\<lparr>w_id = 1, w_name = ''Leg Day'', w_date = ''2024-06-01'',
          w_duration = Some 45, w_calories = Some 300\<rparr>],
       workouts_seq = 1,
       exercises = Some [\<lparr>e_id = 1, e_workout_id = Some 1, e_name = ''Squat'', e_sets = Some 4,
          e_reps = Some 8, e_weight = Some 80\<rparr>],
       exercises_seq = 1, user_profile = Some [default_profile]\<rparr>,
      Inl (NotNullFailed ''exercises.name'')) \<and>
   workouts started = Some [] \<and>
   fst (createWorkout started (leg_day (ExArray [squat, nameless, lunge]))) \<noteq> started"
  by (simp add: started_value createWorkout_def insert_workout_def insert_exercise_def
      next_rowid_def leg_day_def squat_def nameless_def lunge_def Let_def)

text \<open>
  C2, amended. POST /api/workouts runs its inserts one by one without a transaction.
  When the insert of the workout fails (no name or no date) the store is unchanged.
  When the workout is inserted and the insert of a supplied exercise fails (it has no
  name), the call ends in that error, nothing is rolled back: the new workout row and
  the rows of the exercises supplied before the failing one stay in the store, and the
  exercises after it are not inserted.
\<close>

theorem createWorkout_partial_failure:
  assumes "reachable s"
  shows "(b_name b = None \<or> b_date b = None \<longrightarrow> (\<exists>e. createWorkout s b = (s, Inl e))) \<and>
     (b_name b = Some n \<and> b_date b = Some d \<and> b_exercises b = ExArray (pre @ bad # post) \<and>
        list_all named pre \<and> x_name bad = None \<longrightarrow>
      (\<exists>s' i ws es new. createWorkout s b = (s', Inl (NotNullFailed ''exercises.name'')) \<and>
         workouts s = Some ws \<and> exercises s = Some es \<and>
         workouts s' = Some (ws @ [\<lparr>w_id = i, w_name = n, w_date = d,
            w_duration = b_duration b, w_calories = b_calories b\<rparr>]) \<and>
         exercises s' = Some (es @ new) \<and> list_all2 (stores_exercise i) new pre))"
proof -
  from assms have "store_inv s" by (rule reachable_inv)
  then obtain ws es where t: "workouts s = Some ws" "exercises s = Some es"
    by (auto simp add: store_inv_def)
  have "\<exists>e. createWorkout s b = (s, Inl e)" if "b_name b = None \<or> b_date b = None"
  proof (cases "b_name b")
    case None
    with t(1) show ?thesis by (simp add: createWorkout_no_name)
  next
    case (Some a)
    with that have "b_date b = None" by simp
    with t(1) Some show ?thesis by (simp add: createWorkout_no_date)
  qed
  moreover have "\<exists>s' i ws es new.
         createWorkout s b = (s', Inl (NotNullFailed ''exercises.name'')) \<and>
         workouts s = Some ws \<and> exercises s = Some es \<and>
         workouts s' = Some (ws @ [\<lparr>w_id = i, w_name = n, w_date = d,
            w_duration = b_duration b, w_calories = b_calories b\<rparr>]) \<and>
         exercises s' = Some (es @ new) \<and> list_all2 (stores_exercise i) new pre"
    if h: "b_name b = Some n" "b_date b = Some d" "b_exercises b = ExArray (pre @ bad # post)"
      "list_all named pre" "x_name bad = None"
  proof -
    have bad: "\<not> named bad" using h(5) by (simp add: named_def)
    have pre: "takeWhile named (pre @ bad # post) = pre"
      using h(4) bad by (simp add: list_all_iff)
    have "\<not> list_all named (pre @ bad # post)"
      using bad by simp
    with createWorkout_effect [OF t h(1,2)] h(3) pre t show ?thesis
      by auto
  qed
  ultimately show ?thesis by blast
qed

text \<open>
  C2, amended, on the store with one workout: a Leg Day without a date changes nothing,
  and the Leg Day with a nameless second exercise leaves workout 2 and its squat
  behind, while the lunge is never inserted.
\<close>

theorem createWorkout_partial_failure_witness:
  "reachable one_leg_day \<and>
   createWorkout one_leg_day ((leg_day (ExArray [squat]))\<lparr>b_date := None\<rparr>) =
     (one_leg_day, Inl (NotNullFailed ''workouts.date'')) \<and>
   snd (createWorkout one_leg_day (leg_day (ExArray [squat, nameless, lunge]))) =
     Inl (NotNullFailed ''exercises.name'') \<and>
   map_option (map w_id)
     (workouts (fst (createWorkout one_leg_day (leg_day (ExArray [squat, nameless, lunge]))))) =
     Some [1, 2] \<and>
   map_option (map (\<lambda>e. (e_workout_id e, e_name e)))
     (exercises (fst (createWorkout one_leg_day (leg_day (ExArray [squat, nameless, lunge]))))) =
     Some [(Some 1, ''Squat''), (Some 2, ''Squat'')]"
proof -
  have b: "b_name (leg_day (ExArray [squat, nameless, lunge])) = Some ''Leg Day'' \<and>
      b_date (leg_day (ExArray [squat, nameless, lunge])) = Some ''2024-06-01'' \<and>
      b_exercises (leg_day (ExArray [squat, nameless, lunge])) = ExArray ([squat] @ nameless # [lunge]) \<and>
      list_all named [squat] \<and> x_name nameless = None"
    by (simp add: leg_day_def named_def squat_def nameless_def)
  from createWorkout_partial_failure [OF reachable_one_leg_day,
      of "leg_day (ExArray [squat, nameless, lunge])" "''Leg Day''" "''2024-06-01''"
        "[squat]" nameless "[lunge]"] b
  have err: "snd (createWorkout one_leg_day (leg_day (ExArray [squat, nameless, lunge]))) =
     Inl (NotNullFailed ''exercises.name'')"
    by auto
  have "map_option (map w_id)
     (workouts (fst (createWorkout one_leg_day (leg_day (ExArray [squat, nameless, lunge]))))) =
     Some [1, 2]"
    "map_option (map (\<lambda>e. (e_workout_id e, e_name e)))
     (exercises (fst (createWorkout one_leg_day (leg_day (ExArray [squat, nameless, lunge]))))) =
     Some [(Some 1, ''Squat''), (Some 2, ''Squat'')]"
    by (simp_all add: one_leg_day_value createWorkout_def insert_workout_def insert_exercise_def
        next_rowid_def leg_day_def squat_def nameless_def lunge_def Let_def)
  moreover from createWorkout_partial_failure [OF reachable_one_leg_day,
      of "(leg_day (ExArray [squat]))\<lparr>b_date := None\<rparr>"]
  obtain e where
    e: "createWorkout one_leg_day ((leg_day (ExArray [squat]))\<lparr>b_date := None\<rparr>) =
      (one_leg_day, Inl e)"
    by auto
  moreover have "snd (createWorkout one_leg_day ((leg_day (ExArray [squat]))\<lparr>b_date := None\<rparr>)) =
      Inl (NotNullFailed ''workouts.date'')"
    by (simp add: one_leg_day_value createWorkout_def insert_workout_def leg_day_def)
  with e have "e = NotNullFailed ''workouts.date''" by simp
  ultimately show ?thesis using e err reachable_one_leg_day by simp
qed



text \<open>
  C4, as stated, fails on ties: of two workouts posted for the same date, GET
  /api/workouts lists identifier 1 before identifier 2, which is not the order by date
  descending and identifier descending.
\<close>

theorem listWorkouts_ties_counterexample:
  "listWorkouts two_runs =
     Inr [\<lparr>w_id = 1, w_name = ''Run'', w_date = ''2024-06-01'', w_duration = Some 30,
            w_calories = Some 200\<rparr>,
          \<lparr>w_id = 2, w_name = ''Run'', w_date = ''2024-06-01'', w_duration = Some 30,
            w_calories = Some 200\<rparr>] \<and>
   \<not> sorted_wrt date_desc_id_desc
     [\<lparr>w_id = 1, w_name = ''Run'', w_date = ''2024-06-01'', w_duration = Some 30,
            w_calories = Some 200\<rparr>,
      \<lparr>w_id = 2, w_name = ''Run'', w_date = ''2024-06-01'', w_duration = Some 30,
            w_calories = Some 200\<rparr>]"
  by (simp add: two_runs_def started_value createWorkout_def insert_workout_def next_rowid_def
      run_on_def Let_def listWorkouts_def order_by_date_desc_def date_desc_id_desc_def)

text \<open>
  C4, amended. GET /api/workouts returns all workout rows, each once, sorted by date
  descending (most recent first); rows of equal date come in ascending order of their
  identifiers, that is in insertion order, since ORDER BY names the date only.
\<close>

theorem listWorkouts_sorted:
  assumes "reachable s"
  shows "\<exists>ws out. workouts s = Some ws \<and> listWorkouts s = Inr out \<and> mset out = mset ws \<and>
     sorted_wrt stable_date_desc out"
proof -
  from assms have "store_inv s" by (rule reachable_inv)
  then obtain ws where ws: "workouts s = Some ws" and ids: "sorted_wrt (<) (map w_id ws)"
    by (auto simp add: store_inv_def)
  have "listWorkouts s = Inr (order_by_date_desc ws)"
    using ws by (simp add: listWorkouts_def)
  moreover have "mset (order_by_date_desc ws) = mset ws"
    by (rule mset_order_by_date_desc)
  moreover have "sorted_wrt stable_date_desc (order_by_date_desc ws)"
    using ids by (rule order_by_date_desc_sorted)
  ultimately show ?thesis using ws by blast
qed

text \<open>
  C4, amended, on the example of the specification: workouts posted for 2024-01-01,
  2024-01-03 and 2024-01-02 are listed as 01-03, 01-02, 01-01.
\<close>

theorem listWorkouts_sorted_witness:
  "reachable three_runs \<and>
   map_sum id (map (\<lambda>w. (w_date w, w_id w))) (listWorkouts three_runs) =
     Inr [(''2024-01-03'', 2), (''2024-01-02'', 3), (''2024-01-01'', 1)] \<and>
   (\<exists>out. listWorkouts three_runs = Inr out \<and> sorted_wrt stable_date_desc out)"
proof -
  have "map_sum id (map (\<lambda>w. (w_date w, w_id w))) (listWorkouts three_runs) =
     Inr [(''2024-01-03'', 2), (''2024-01-02'', 3), (''2024-01-01'', 1)]"
    by (simp add: three_runs_def started_value createWorkout_def insert_workout_def
        next_rowid_def run_on_def Let_def listWorkouts_def order_by_date_desc_def)
  with listWorkouts_sorted [OF reachable_three_runs] reachable_three_runs
  show ?thesis by blast
qed

text \<open>
  C5. A valid POST /api/workouts succeeds and returns an identifier that is larger than
  the identifier of every workout listed before and than every identifier handed out
  before, so that the identifiers in the list stay pairwise different; the list of
  workouts afterwards is the list before with exactly one more entry,
  which carries the new identifier and the posted name, date, duration and calories;
  taking that entry out gives back the old list, entry by entry.
\<close>

theorem createWorkout_fresh_id:
  assumes "reachable s" and "valid_body b"
  shows "\<exists>s' i n d old new. createWorkout s b = (s', Inr i) \<and>
     b_name b = Some n \<and> b_date b = Some d \<and>
     listWorkouts s = Inr old \<and> listWorkouts s' = Inr new \<and>
     (\<forall>w\<in>set old. w_id w < i) \<and> workouts_seq s < i \<and> distinct (map w_id new) \<and>
     mset new = add_mset \<lparr>w_id = i, w_name = n, w_date = d, w_duration = b_duration b,
        w_calories = b_calories b\<rparr> (mset old) \<and>
     remove1 \<lparr>w_id = i, w_name = n, w_date = d, w_duration = b_duration b,
        w_calories = b_calories b\<rparr> new = old"
proof -
  from assms(1) have "store_inv s" by (rule reachable_inv)
  then obtain ws es where t: "workouts s = Some ws" "exercises s = Some es"
    and ids: "sorted_wrt (<) (map w_id ws)"
    by (auto simp add: store_inv_def)
  from assms(2) obtain n d where nd: "b_name b = Some n" "b_date b = Some d"
    and ex: "list_all named (supplied_exercises (b_exercises b))"
    by (auto simp add: valid_body_def)
  define i where "i = next_rowid (map w_id ws) (workouts_seq s)"
  define row where "row = \<lparr>w_id = i, w_name = n, w_date = d, w_duration = b_duration b,
        w_calories = b_calories b\<rparr>"
  from createWorkout_effect [OF t nd] ex obtain s' where
    run: "createWorkout s b = (s', Inr i)" and ws': "workouts s' = Some (ws @ [row])"
    unfolding i_def row_def by auto
  have gt: "\<forall>w\<in>set ws. w_id w < i"
    using next_rowid_gt_ids [of _ "map w_id ws" "workouts_seq s"] by (simp add: i_def)
  have old: "listWorkouts s = Inr (order_by_date_desc ws)"
    using t by (simp add: listWorkouts_def)
  have new: "listWorkouts s' = Inr (insert_desc row (order_by_date_desc ws))"
    using ws' by (simp add: listWorkouts_def order_by_date_desc_snoc)
  have "w_id row = i" by (simp add: row_def)
  with gt have fresh: "row \<notin> set (order_by_date_desc ws)"
    by (auto simp add: set_order_by_date_desc)
  have "\<forall>w\<in>set (order_by_date_desc ws). w_id w < i"
    using gt by (simp add: set_order_by_date_desc)
  moreover have "workouts_seq s < i"
    unfolding i_def by (rule next_rowid_gt_seq)
  moreover have "distinct (map w_id (insert_desc row (order_by_date_desc ws)))"
    using ids gt \<open>w_id row = i\<close> by (intro distinct_ids_after_insert) simp_all
  moreover have "mset (insert_desc row (order_by_date_desc ws)) =
      add_mset row (mset (order_by_date_desc ws))"
    by (rule mset_insert_desc)
  moreover have "remove1 row (insert_desc row (order_by_date_desc ws)) = order_by_date_desc ws"
    using fresh by (rule remove1_insert_desc)
  ultimately show ?thesis
    using run nd old new unfolding row_def by blast
qed

text \<open>
  C5, on the store with one workout: a run on 2024-06-02 gets identifier 2 and is listed
  first, in front of the unchanged Leg Day entry.
\<close>

theorem createWorkout_fresh_id_witness:
  "reachable one_leg_day \<and> valid_body (run_on ''2024-06-02'') \<and>
   snd (createWorkout one_leg_day (run_on ''2024-06-02'')) = Inr 2 \<and>
   listWorkouts one_leg_day =
     Inr [\<lparr>w_id = 1, w_name = ''Leg Day'', w_date = ''2024-06-01'', w_duration = Some 45,
            w_calories = Some 300\<rparr>] \<and>
   listWorkouts (fst (createWorkout one_leg_day (run_on ''2024-06-02''))) =
     Inr [\<lparr>w_id = 2, w_name = ''Run'', w_date = ''2024-06-02'', w_duration = Some 30,
            w_calories = Some 200\<rparr>,
          \<lparr>w_id = 1, w_name = ''Leg Day'', w_date = ''2024-06-01'', w_duration = Some 45,
            w_calories = Some 300\<rparr>]"
proof -
  have v: "valid_body (run_on ''2024-06-02'')"
    by (simp add: valid_body_def run_on_def)
  have old: "listWorkouts one_leg_day =
     Inr [\<lparr>w_id = 1, w_name = ''Leg Day'', w_date = ''2024-06-01'', w_duration = Some 45,
            w_calories = Some 300\<rparr>]"
    by (simp add: one_leg_day_value listWorkouts_def order_by_date_desc_def)
  from createWorkout_fresh_id [OF reachable_one_leg_day v] old
  obtain s' i new where run: "createWorkout one_leg_day (run_on ''2024-06-02'') = (s', Inr i)"
    and new: "listWorkouts s' = Inr new"
    and gt: "1 < i" and seq: "workouts_seq one_leg_day < i"
    and rest: "remove1 \<lparr>w_id = i, w_name = ''Run'', w_date = ''2024-06-02'', w_duration = Some 30,
        w_calories = Some 200\<rparr> new =
      [\<lparr>w_id = 1, w_name = ''Leg Day'', w_date = ''2024-06-01'', w_duration = Some 45,
            w_calories = Some 300\<rparr>]"
    by (auto simp add: run_on_def)
  have "createWorkout one_leg_day (run_on ''2024-06-02'') =
     (one_leg_day\<lparr>workouts := Some [\<lparr>w_id = 1, w_name = ''Leg Day'', w_date = ''2024-06-01'',
          w_duration = Some 45, w_calories = Some 300\<rparr>,
        \<lparr>w_id = 2, w_name = ''Run'', w_date = ''2024-06-02'', w_duration = Some 30,
          w_calories = Some 200\<rparr>], workouts_seq := 2\<rparr>, Inr 2)"
    by (simp add: one_leg_day_value createWorkout_def insert_workout_def next_rowid_def
        run_on_def Let_def)
  then show ?thesis
    using reachable_one_leg_day v old
    by (simp add: one_leg_day_value listWorkouts_def order_by_date_desc_def)
qed

text \<open>
  C6, as stated, fails: a call may supply a list of three exercises and leave one row.
  Posting a Leg Day with a squat, an exercise without a name and a lunge to the store
  with one workout ends in the NOT NULL error of \<open>exercises.name\<close>, and the only
  exercise row that references the new workout 2 is the one of the squat.
\<close>

theorem createWorkout_exercise_rows_counterexample:
  "snd (createWorkout one_leg_day (leg_day (ExArray [squat, nameless, lunge]))) =
     Inl (NotNullFailed ''exercises.name'') \<and>
   map_option (filter (\<lambda>e. e_workout_id e = Some 2))
     (exercises (fst (createWorkout one_leg_day (leg_day (ExArray [squat, nameless, lunge]))))) =
     Some [\<lparr>e_id = 2, e_workout_id = Some 2, e_name = ''Squat'', e_sets = Some 4,
             e_reps = Some 8, e_weight = Some 80\<rparr>] \<and>
   length [squat, nameless, lunge] = 3"
  by (simp add: one_leg_day_value createWorkout_def insert_workout_def insert_exercise_def
      next_rowid_def leg_day_def squat_def nameless_def lunge_def Let_def)

text \<open>
  C6, amended. A POST /api/workouts whose name and date are present and which supplies
  a list of N exercises that all have a name succeeds: it stores the workout row with
  the returned identifier and the posted fields and appends N exercise rows, one per
  supplied exercise and in the order supplied, each referencing the identifier of the
  new workout and holding the supplied name, sets, reps and weight; these N rows are
  all the rows that reference the new workout. When name and date are present and the
  exercises field is absent or not an array, the call succeeds as well, stores the
  workout row and leaves the exercise table as it was.
\<close>

theorem createWorkout_exercise_rows:
  assumes "reachable s" and "valid_body b"
  shows "\<exists>s' i n d ws es new. createWorkout s b = (s', Inr i) \<and>
     b_name b = Some n \<and> b_date b = Some d \<and>
     workouts s = Some ws \<and>
     workouts s' = Some (ws @ [\<lparr>w_id = i, w_name = n, w_date = d, w_duration = b_duration b,
        w_calories = b_calories b\<rparr>]) \<and>
     workouts_seq s' = i \<and> user_profile s' = user_profile s \<and>
     exercises s = Some es \<and> exercises s' = Some (es @ new) \<and>
     list_all2 (stores_exercise i) new (supplied_exercises (b_exercises b)) \<and>
     filter (\<lambda>e. e_workout_id e = Some i) (es @ new) = new \<and>
     (\<forall>exs. b_exercises b = ExArray exs \<longrightarrow> length new = length exs) \<and>
     (b_exercises b = ExAbsent \<or> b_exercises b = ExNotArray \<longrightarrow> exercises s' = exercises s)"
proof -
  from assms(1) have "store_inv s" by (rule reachable_inv)
  then obtain ws es where t: "workouts s = Some ws" "exercises s = Some es"
    and fk: "\<forall>e\<in>set es. \<exists>w\<in>set ws. e_workout_id e = Some (w_id w)"
    by (auto simp add: store_inv_def)
  from assms(2) obtain n d where nd: "b_name b = Some n" "b_date b = Some d"
    and ex: "list_all named (supplied_exercises (b_exercises b))"
    by (auto simp add: valid_body_def)
  define i where "i = next_rowid (map w_id ws) (workouts_seq s)"
  have all: "takeWhile named (supplied_exercises (b_exercises b)) =
      supplied_exercises (b_exercises b)"
    using ex by (simp add: takeWhile_eq_all_conv list_all_iff)
  from createWorkout_effect [OF t nd] ex obtain s' new where
    run: "createWorkout s b = (s', Inr i)"
    and ws': "workouts s' = Some (ws @ [\<lparr>w_id = i, w_name = n, w_date = d,
        w_duration = b_duration b, w_calories = b_calories b\<rparr>])"
    and seq': "workouts_seq s' = i" and p': "user_profile s' = user_profile s"
    and es': "exercises s' = Some (es @ new)"
    and all2: "list_all2 (stores_exercise i) new (supplied_exercises (b_exercises b))"
    unfolding i_def all by auto
  have gt: "\<forall>w\<in>set ws. w_id w < i"
    using next_rowid_gt_ids [of _ "map w_id ws" "workouts_seq s"] by (simp add: i_def)
  have "\<forall>e\<in>set es. e_workout_id e \<noteq> Some i"
    using fk gt by fastforce
  then have old: "filter (\<lambda>e. e_workout_id e = Some i) es = []"
    by (simp add: filter_empty_conv)
  have "\<forall>e\<in>set new. e_workout_id e = Some i"
    using all2 by (auto simp add: list_all2_conv_all_nth in_set_conv_nth stores_exercise_def)
  then have new: "filter (\<lambda>e. e_workout_id e = Some i) new = new"
    by (simp add: filter_id_conv)
  have len: "length new = length (supplied_exercises (b_exercises b))"
    using all2 by (rule list_all2_lengthD)
  have "\<forall>exs. b_exercises b = ExArray exs \<longrightarrow> length new = length exs"
    using len by simp
  moreover have "b_exercises b = ExAbsent \<or> b_exercises b = ExNotArray \<longrightarrow>
      exercises s' = exercises s"
    using len es' t by auto
  ultimately show ?thesis
    using run nd t ws' seq' p' es' all2 old new
    by (intro exI [of _ s'] exI [of _ i] exI [of _ n] exI [of _ d] exI [of _ ws]
        exI [of _ es] exI [of _ new]) simp
qed

text \<open>
  C6, amended, on the store with one workout and one exercise: a Leg Day with a squat
  and a lunge becomes workout 2 with exercise rows 2 and 3, in this order, and a Leg Day
  whose exercises field is not an array becomes workout 2 and leaves the exercise table
  alone.
\<close>

theorem createWorkout_exercise_rows_witness:
  "reachable one_leg_day \<and> valid_body (leg_day (ExArray [squat, lunge])) \<and>
   valid_body (leg_day ExNotArray) \<and>
   snd (createWorkout one_leg_day (leg_day (ExArray [squat, lunge]))) = Inr 2 \<and>
   map_option (map w_id)
     (workouts (fst (createWorkout one_leg_day (leg_day (ExArray [squat, lunge]))))) =
     Some [1, 2] \<and>
   exercises (fst (createWorkout one_leg_day (leg_day (ExArray [squat, lunge])))) =
     Some [\<lparr>e_id = 1, e_workout_id = Some 1, e_name = ''Squat'', e_sets = Some 4,
             e_reps = Some 8, e_weight = Some 80\<rparr>,
           \<lparr>e_id = 2, e_workout_id = Some 2, e_name = ''Squat'', e_sets = Some 4,
             e_reps = Some 8, e_weight = Some 80\<rparr>,
           \<lparr>e_id = 3, e_workout_id = Some 2, e_name = ''Lunge'', e_sets = Some 3,
             e_reps = Some 12, e_weight = None\<rparr>] \<and>
   (\<exists>s'. createWorkout one_leg_day (leg_day ExNotArray) = (s', Inr 2) \<and>
      exercises s' = exercises one_leg_day \<and> map_option (map w_id) (workouts s') = Some [1, 2])"
proof -
  have v: "valid_body (leg_day (ExArray [squat, lunge]))" "valid_body (leg_day ExNotArray)"
    by (simp_all add: valid_body_def leg_day_def named_def squat_def lunge_def)
  have run: "snd (createWorkout one_leg_day (leg_day (ExArray [squat, lunge]))) = Inr 2"
    "map_option (map w_id)
     (workouts (fst (createWorkout one_leg_day (leg_day (ExArray [squat, lunge]))))) =
     Some [1, 2]"
    "exercises (fst (createWorkout one_leg_day (leg_day (ExArray [squat, lunge])))) =
     Some [\<lparr>e_id = 1, e_workout_id = Some 1, e_name = ''Squat'', e_sets = Some 4,
             e_reps = Some 8, e_weight = Some 80\<rparr>,
           \<lparr>e_id = 2, e_workout_id = Some 2, e_name = ''Squat'', e_sets = Some 4,
             e_reps = Some 8, e_weight = Some 80\<rparr>,
           \<lparr>e_id = 3, e_workout_id = Some 2, e_name = ''Lunge'', e_sets = Some 3,
             e_reps = Some 12, e_weight = None\<rparr>]"
    by (simp_all add: one_leg_day_value createWorkout_def insert_workout_def insert_exercise_def
        next_rowid_def leg_day_def squat_def lunge_def Let_def)
  have two: "snd (createWorkout one_leg_day (leg_day ExNotArray)) = Inr 2"
    by (simp add: one_leg_day_value createWorkout_def insert_workout_def next_rowid_def
        leg_day_def Let_def)
  have ids: "map w_id (the (workouts one_leg_day)) = [1]"
    by (simp add: one_leg_day_value)
  from createWorkout_exercise_rows [OF reachable_one_leg_day v(2)] two ids
  have "\<exists>s'. createWorkout one_leg_day (leg_day ExNotArray) = (s', Inr 2) \<and>
      exercises s' = exercises one_leg_day \<and> map_option (map w_id) (workouts s') = Some [1, 2]"
    by (auto simp add: leg_day_def)
  moreover from createWorkout_exercise_rows [OF reachable_one_leg_day v(1)] run(1)
  have "\<exists>s' new. createWorkout one_leg_day (leg_day (ExArray [squat, lunge])) = (s', Inr 2) \<and>
      list_all2 (stores_exercise 2) new [squat, lunge]"
    by (auto simp add: leg_day_def)
  ultimately show ?thesis
    using reachable_one_leg_day v run by simp
qed

text \<open>
  C7. POST /api/profile overwrites all four fields of the profile row with the posted
  values, whatever they are (absent fields become NULL, a negative weight is stored),
  answers \<open>{success: true}\<close>, and GET /api/profile then returns the posted values.
\<close>

theorem updateProfile_overwrites:
  assumes "reachable s"
  shows "\<exists>s'. updateProfile s b = (s', Inr [(''success'', JBool True)]) \<and>
     user_profile s' = Some [\<lparr>p_id = 1, p_name = pb_name b, p_weight = pb_weight b,
        p_height = pb_height b, p_goal = pb_goal b\<rparr>] \<and>
     getProfile s' = Inr (Some [(''id'', JInt 1), (''name'', json_of JStr (pb_name b)),
        (''weight'', json_of JReal (pb_weight b)), (''height'', json_of JReal (pb_height b)),
        (''goal'', json_of JStr (pb_goal b))])"
proof -
  from assms have "store_inv s" by (rule reachable_inv)
  then obtain r where r: "user_profile s = Some [r]" "p_id r = 1"
    by (auto simp add: store_inv_def)
  show ?thesis
    unfolding updateProfile_single [OF r]
    by (simp add: getProfile_def profile_json_def)
qed

text \<open>C7, for the profile of Ana with a negative weight, posted over the default.\<close>

theorem updateProfile_overwrites_witness:
  "reachable started \<and>
   updateProfile started ana =
     (started\<lparr>user_profile := Some [\<lparr>p_id = 1, p_name = Some ''Ana'', p_weight = Some (- 60),
         p_height = Some 165, p_goal = Some ''Perder peso''\<rparr>]\<rparr>,
      Inr [(''success'', JBool True)]) \<and>
   getProfile (fst (updateProfile started ana)) =
     Inr (Some [(''id'', JInt 1), (''name'', JStr ''Ana''), (''weight'', JReal (- 60)),
        (''height'', JReal 165), (''goal'', JStr ''Perder peso'')])"
proof -
  have v: "updateProfile started ana =
     (started\<lparr>user_profile := Some [\<lparr>p_id = 1, p_name = Some ''Ana'', p_weight = Some (- 60),
         p_height = Some 165, p_goal = Some ''Perder peso''\<rparr>]\<rparr>,
      Inr [(''success'', JBool True)])"
    by (simp add: started_value updateProfile_def update_row_def default_profile_def ana_def)
  from updateProfile_overwrites [OF reachable_started, of ana] v
  have "getProfile (fst (updateProfile started ana)) =
     Inr (Some [(''id'', JInt 1), (''name'', json_of JStr (pb_name ana)),
        (''weight'', json_of JReal (pb_weight ana)), (''height'', json_of JReal (pb_height ana)),
        (''goal'', json_of JStr (pb_goal ana))])"
    by auto
  then show ?thesis
    using v reachable_started by (simp add: ana_def json_of_def)
qed

text \<open>
  C8, as stated, fails: the object that GET /api/profile returns for the default profile
  has five keys, the first being \<open>id\<close>, not the four keys name, weight, height and goal.
\<close>

theorem getProfile_four_fields_counterexample:
  "getProfile started =
     Inr (Some [(''id'', JInt 1), (''name'', JStr ''Atleta''), (''weight'', JReal 75),
        (''height'', JReal 175), (''goal'', JStr ''Ganhar massa muscular'')]) \<and>
   map_sum id (map_option (map fst)) (getProfile started) \<noteq>
     Inr (Some [''name'', ''weight'', ''height'', ''goal''])"
  by (simp add: started_value getProfile_def profile_json_def default_profile_def json_of_def)

text \<open>
  C8, amended. GET /api/profile returns the one profile row as an object with the five
  fields id, name, weight, height and goal, in this order, where id is 1 and the other
  four are the stored values (NULL as \<open>null\<close>).
\<close>

theorem getProfile_five_fields:
  assumes "reachable s"
  shows "\<exists>r. user_profile s = Some [r] \<and>
     getProfile s = Inr (Some [(''id'', JInt 1), (''name'', json_of JStr (p_name r)),
        (''weight'', json_of JReal (p_weight r)), (''height'', json_of JReal (p_height r)),
        (''goal'', json_of JStr (p_goal r))])"
proof -
  from assms have "store_inv s" by (rule reachable_inv)
  then obtain r where r: "user_profile s = Some [r]" "p_id r = 1"
    by (auto simp add: store_inv_def)
  then show ?thesis
    by (simp add: getProfile_def profile_json_def)
qed

text \<open>C8, amended, on the store with one workout and the default profile.\<close>

theorem getProfile_five_fields_witness:
  "reachable one_leg_day \<and>
   getProfile one_leg_day =
     Inr (Some [(''id'', JInt 1), (''name'', JStr ''Atleta''), (''weight'', JReal 75),
        (''height'', JReal 175), (''goal'', JStr ''Ganhar massa muscular'')])"
proof -
  from getProfile_five_fields [OF reachable_one_leg_day] obtain r where
    "user_profile one_leg_day = Some [r]"
    and g: "getProfile one_leg_day = Inr (Some [(''id'', JInt 1), (''name'', json_of JStr (p_name r)),
        (''weight'', json_of JReal (p_weight r)), (''height'', json_of JReal (p_height r)),
        (''goal'', json_of JStr (p_goal r))])"
    by blast
  then have "r = default_profile" by (simp add: one_leg_day_value)
  with g show ?thesis
    using reachable_one_leg_day by (simp add: default_profile_def json_of_def)
qed

text \<open>
  C9. A POST /api/workouts whose name is absent or null fails with the NOT NULL error
  of \<open>workouts.name\<close> and leaves the whole store as it was: no workout row, no exercise
  row, no rowid used. An empty string is a name like any other: with a date and named
  exercises the workout is stored under the name \<open>''''\<close>.
\<close>

theorem createWorkout_name_required:
  assumes "reachable s"
  shows "(b_name b = None \<longrightarrow> createWorkout s b = (s, Inl (NotNullFailed ''workouts.name''))) \<and>
     (b_name b = Some [] \<and> b_date b = Some d \<and>
        list_all named (supplied_exercises (b_exercises b)) \<longrightarrow>
      (\<exists>s' i ws. createWorkout s b = (s', Inr i) \<and> workouts s = Some ws \<and>
         workouts s' = Some (ws @ [\<lparr>w_id = i, w_name = [], w_date = d,
            w_duration = b_duration b, w_calories = b_calories b\<rparr>])))"
proof -
  from assms have "store_inv s" by (rule reachable_inv)
  then obtain ws es where t: "workouts s = Some ws" "exercises s = Some es"
    by (auto simp add: store_inv_def)
  have "createWorkout s b = (s, Inl (NotNullFailed ''workouts.name''))" if "b_name b = None"
    using t(1) that by (rule createWorkout_no_name)
  moreover have "\<exists>s' i ws. createWorkout s b = (s', Inr i) \<and> workouts s = Some ws \<and>
         workouts s' = Some (ws @ [\<lparr>w_id = i, w_name = [], w_date = d,
            w_duration = b_duration b, w_calories = b_calories b\<rparr>])"
    if "b_name b = Some []" "b_date b = Some d"
      "list_all named (supplied_exercises (b_exercises b))"
    using createWorkout_effect [OF t that(1,2)] that(3) t(1) by auto
  ultimately show ?thesis by blast
qed

text \<open>
  C9, on the store with one workout: the Leg Day body without its name is refused and
  nothing changes; with the empty name it becomes workout 2.
\<close>

theorem createWorkout_name_required_witness:
  "reachable one_leg_day \<and>
   createWorkout one_leg_day ((leg_day (ExArray [squat]))\<lparr>b_name := None\<rparr>) =
     (one_leg_day, Inl (NotNullFailed ''workouts.name'')) \<and>
   snd (createWorkout one_leg_day ((leg_day (ExArray [squat]))\<lparr>b_name := Some []\<rparr>)) = Inr 2 \<and>
   map_option (map w_name)
     (workouts (fst (createWorkout one_leg_day ((leg_day (ExArray [squat]))\<lparr>b_name := Some []\<rparr>)))) =
     Some [''Leg Day'', []]"
proof -
  have none: "b_name ((leg_day (ExArray [squat]))\<lparr>b_name := None\<rparr>) = None"
    by simp
  have ok: "snd (createWorkout one_leg_day ((leg_day (ExArray [squat]))\<lparr>b_name := Some []\<rparr>)) = Inr 2"
    "map_option (map w_name)
     (workouts (fst (createWorkout one_leg_day ((leg_day (ExArray [squat]))\<lparr>b_name := Some []\<rparr>)))) =
     Some [''Leg Day'', []]"
    by (simp_all add: one_leg_day_value createWorkout_def insert_workout_def insert_exercise_def
        next_rowid_def leg_day_def squat_def Let_def)
  have "b_name ((leg_day (ExArray [squat]))\<lparr>b_name := Some []\<rparr>) = Some [] \<and>
      b_date ((leg_day (ExArray [squat]))\<lparr>b_name := Some []\<rparr>) = Some ''2024-06-01'' \<and>
      list_all named (supplied_exercises
        (b_exercises ((leg_day (ExArray [squat]))\<lparr>b_name := Some []\<rparr>)))"
    by (simp add: leg_day_def named_def squat_def)
  with createWorkout_name_required [OF reachable_one_leg_day,
      of "(leg_day (ExArray [squat]))\<lparr>b_name := Some []\<rparr>" "''2024-06-01''"]
  have "\<exists>s' i. createWorkout one_leg_day ((leg_day (ExArray [squat]))\<lparr>b_name := Some []\<rparr>) =
      (s', Inr i)"
    by blast
  then show ?thesis
    using createWorkout_name_required [OF reachable_one_leg_day,
        of "(leg_day (ExArray [squat]))\<lparr>b_name := None\<rparr>"] none ok reachable_one_leg_day
    by simp
qed

text \<open>
  C10. The two writing operations touch disjoint tables: POST /api/profile leaves the
  workout and exercise tables and their rowid counters as they are, and
  POST /api/workouts leaves the profile table as it is, whether they succeed or fail.
\<close>

theorem operations_disjoint:
  "workouts (fst (updateProfile s p)) = workouts s \<and>
   exercises (fst (updateProfile s p)) = exercises s \<and>
   workouts_seq (fst (updateProfile s p)) = workouts_seq s \<and>
   exercises_seq (fst (updateProfile s p)) = exercises_seq s \<and>
   user_profile (fst (createWorkout s w)) = user_profile s"
  using updateProfile_frame [of s p] createWorkout_user_profile [of s w] by simp

text \<open>C10, on the store with one workout: a profile update and a failing creation.\<close>

theorem operations_disjoint_witness:
  "workouts (fst (updateProfile one_leg_day ana)) = workouts one_leg_day \<and>
   exercises (fst (updateProfile one_leg_day ana)) = exercises one_leg_day \<and>
   workouts (fst (updateProfile one_leg_day ana)) \<noteq> Some [] \<and>
   user_profile (fst (createWorkout one_leg_day (leg_day (ExArray [squat, nameless])))) =
     Some [default_profile]"
  using operations_disjoint [of one_leg_day ana "leg_day (ExArray [squat, nameless])"]
  by (simp add: one_leg_day_value)

end
